theory Spec2Isabelle
  imports Main
begin

text \<open>
  A model of the article chatbot of \<^verbatim>\<open>chatbot.py\<close>: the segmenter \<^verbatim>\<open>chunk_text\<close>,
  the context retrieval \<^verbatim>\<open>get_relevant_context\<close>, the session's \<^verbatim>\<open>chat_with_article\<close>
  and the rule-based fallback \<^verbatim>\<open>_handle_basic_response\<close> with its five handlers.

  Python strings are modelled as \<^typ>\<open>string\<close>, one \<^typ>\<open>char\<close> per character, and the
  case and whitespace tables below are those of ASCII text. The segmenter is modelled
  over lists of any element type.
\<close>

section \<open>Python values and errors\<close>

text \<open>
  The exceptions the modelled code can raise. \<open>ExternalError\<close> stands for whatever the
  hosted answering service raises; the code catches it with \<open>except Exception\<close> and never
  looks at it.
\<close>

datatype py_error = ValueError | TypeError | ExternalError

text \<open>
  A field of the article row: a string, or \<open>None\<close> for a NULL column. \<open>py_str\<close> is
  what an f-string prints for it, \<open>truthy\<close> what \<^verbatim>\<open>if v:\<close> tests.
\<close>

datatype py_value = PyNone | PyStr string

fun py_str :: "py_value \<Rightarrow> string" where
  "py_str PyNone = ''None''"
| "py_str (PyStr s) = s"

fun truthy :: "py_value \<Rightarrow> bool" where
  "truthy PyNone = False"
| "truthy (PyStr s) = (s \<noteq> [])"

section \<open>The segmenter: \<open>chunk_text\<close>\<close>

text \<open>
  \<^verbatim>\<open>range(start, stop, step)\<close>: a zero step raises \<open>ValueError\<close>; otherwise the range
  holds \<open>start + k * step\<close> for \<open>k\<close> below the length that CPython computes for it.
\<close>

definition range_len :: "int \<Rightarrow> int \<Rightarrow> int \<Rightarrow> nat" where
  "range_len start stop step =
     (if 0 < step then (if start < stop then nat ((stop - start + step - 1) div step) else 0)
      else (if stop < start then nat ((start - stop - step - 1) div (- step)) else 0))"

definition py_range :: "int \<Rightarrow> int \<Rightarrow> int \<Rightarrow> py_error + int list" where
  "py_range start stop step =
     (if step = 0 then Inl ValueError
      else Inr (map (\<lambda>k. start + int k * step) [0 ..< range_len start stop step]))"

text \<open>
  \<^verbatim>\<open>xs[i:j]\<close>: a negative bound counts from the end, and both bounds are clamped to
  the sequence.
\<close>

definition slice_bound :: "nat \<Rightarrow> int \<Rightarrow> nat" where
  "slice_bound n k = (if k < 0 then nat (max 0 (k + int n)) else min (nat k) n)"

definition py_slice :: "'a list \<Rightarrow> int \<Rightarrow> int \<Rightarrow> 'a list" where
  "py_slice xs i j =
     (let a = slice_bound (length xs) i; b = slice_bound (length xs) j
      in take (b - a) (drop a xs))"

text \<open>
  \<^verbatim>\<open>return [text[i:i + chunk_size] for i in range(0, len(text), chunk_size)]\<close>
\<close>

definition chunk_text :: "'a list \<Rightarrow> int \<Rightarrow> py_error + 'a list list" where
  "chunk_text text chunk_size =
     (case py_range 0 (int (length text)) chunk_size of
        Inl e \<Rightarrow> Inl e
      | Inr idx \<Rightarrow> Inr (map (\<lambda>i. py_slice text i (i + chunk_size)) idx))"

section \<open>String operations of Python\<close>

text \<open>\<^verbatim>\<open>str.lower()\<close> on ASCII text.\<close>

definition lower_char :: "char \<Rightarrow> char" where
  "lower_char c =
     (case map_of (zip ''ABCDEFGHIJKLMNOPQRSTUVWXYZ'' ''abcdefghijklmnopqrstuvwxyz'') c of
        None \<Rightarrow> c
      | Some d \<Rightarrow> d)"

definition lower :: "string \<Rightarrow> string" where
  "lower s = map lower_char s"

text \<open>
  The characters that \<^verbatim>\<open>str.split()\<close> and \<^verbatim>\<open>str.strip()\<close> treat as whitespace:
  tab, line feed, vertical tab, form feed, carriage return, the four separators
  \<open>0x1c\<close> to \<open>0x1f\<close>, and the space.
\<close>

definition isspace :: "char \<Rightarrow> bool" where
  "isspace c =
     (c \<in> set [CHR 0x09, CHR 0x0A, CHR 0x0B, CHR 0x0C, CHR 0x0D,
                CHR 0x1C, CHR 0x1D, CHR 0x1E, CHR 0x1F, CHR 0x20])"

text \<open>
  \<^verbatim>\<open>s.split()\<close>: the maximal runs of non-whitespace characters, in order. The first
  argument is the token being read.
\<close>

fun str_split_from :: "string \<Rightarrow> string \<Rightarrow> string list" where
  "str_split_from cur [] = (if cur = [] then [] else [cur])"
| "str_split_from cur (c # cs) =
     (if isspace c then (if cur = [] then str_split_from [] cs else cur # str_split_from [] cs)
      else str_split_from (cur @ [c]) cs)"

definition str_split :: "string \<Rightarrow> string list" where
  "str_split s = str_split_from [] s"

text \<open>\<^verbatim>\<open>s.strip()\<close>: whitespace removed at both ends.\<close>

definition strip :: "string \<Rightarrow> string" where
  "strip s = rev (dropWhile isspace (rev (dropWhile isspace s)))"

text \<open>\<^verbatim>\<open>s.startswith(p)\<close> and \<^verbatim>\<open>sub in s\<close>.\<close>

fun startswith :: "'a list \<Rightarrow> 'a list \<Rightarrow> bool" where
  "startswith s [] = True"
| "startswith [] (p # ps) = False"
| "startswith (c # cs) (p # ps) = (c = p \<and> startswith cs ps)"

fun contains :: "'a list \<Rightarrow> 'a list \<Rightarrow> bool" where
  "contains [] sub = (sub = [])"
| "contains (c # cs) sub = (startswith (c # cs) sub \<or> contains cs sub)"

text \<open>
  \<^verbatim>\<open>s.replace(old, new)\<close>: the occurrences of \<open>old\<close> are replaced from the left,
  without overlap. With an empty \<open>old\<close>, Python puts \<open>new\<close> before every character
  and at the end.
\<close>

function replace_from :: "string \<Rightarrow> string \<Rightarrow> string \<Rightarrow> string" where
  "replace_from old new [] = []"
| "replace_from old new (c # cs) =
     (if old \<noteq> [] \<and> startswith (c # cs) old
      then new @ replace_from old new (drop (length old) (c # cs))
      else c # replace_from old new cs)"
  by pat_completeness auto
termination
  by (relation "measure (\<lambda>(old, new, s). length s)") auto

definition replace :: "string \<Rightarrow> string \<Rightarrow> string \<Rightarrow> string" where
  "replace s old new =
     (if old = [] then new @ concat (map (\<lambda>c. c # new) s) else replace_from old new s)"

text \<open>\<^verbatim>\<open>sep.join(xs)\<close>.\<close>

fun join :: "string \<Rightarrow> string list \<Rightarrow> string" where
  "join sep [] = []"
| "join sep [x] = x"
| "join sep (x # y # ys) = x @ sep @ join sep (y # ys)"

text \<open>\<^verbatim>\<open>any(word in s for word in words)\<close>.\<close>

definition any_in :: "string list \<Rightarrow> string \<Rightarrow> bool" where
  "any_in words s = list_ex (\<lambda>word. contains s word) words"

text \<open>\<^verbatim>\<open>xs[-3:]\<close>: the last three elements, or all of them when there are fewer.\<close>

definition last3 :: "'a list \<Rightarrow> 'a list" where
  "last3 xs = drop (slice_bound (length xs) (- 3)) xs"

section \<open>The session\<close>

text \<open>
  The fields of \<^verbatim>\<open>ArticleChatbot\<close> that the methods below read or write. The ledger
  \<open>conversation_history\<close> is a list of (role, message) pairs, oldest first. The handles
  \<^verbatim>\<open>model\<close> and \<^verbatim>\<open>chat\<close> of the hosted service are not fields of the model: the service
  is a parameter of \<open>chat_with_article\<close>.
\<close>

record session =
  article_id :: string
  article_data :: "string \<rightharpoonup> py_value"
  article_text :: string
  chunks :: "string list"
  conversation_history :: "(string \<times> string) list"

section \<open>Context retrieval: \<open>get_relevant_context\<close>\<close>

text \<open>
  The term list: the tokens of the lower-cased query, extended by the tokens of the
  lower-cased message of each of the last three ledger entries, whatever their role.
\<close>

definition query_terms :: "session \<Rightarrow> string \<Rightarrow> string list" where
  "query_terms s query =
     foldl (\<lambda>terms (role, message). terms @ str_split (lower message))
       (str_split (lower query)) (last3 (conversation_history s))"

text \<open>
  The loop over \<open>self.chunks\<close>. \<open>relevant_chunks\<close> is the list built so far; the
  \<^verbatim>\<open>break\<close> is taken after an append, when the list has reached \<open>top_k\<close> entries.
\<close>

definition clean_chunk :: "string \<Rightarrow> string" where
  "clean_chunk chunk = strip (replace chunk ''&quot;'' [CHR 0x22])"

fun select_chunks :: "string list \<Rightarrow> int \<Rightarrow> string list \<Rightarrow> string list \<Rightarrow> string list" where
  "select_chunks terms top_k relevant_chunks [] = relevant_chunks"
| "select_chunks terms top_k relevant_chunks (chunk # rest) =
     (if any_in terms (lower chunk)
      then (if top_k \<le> int (length (relevant_chunks @ [clean_chunk chunk]))
            then relevant_chunks @ [clean_chunk chunk]
            else select_chunks terms top_k (relevant_chunks @ [clean_chunk chunk]) rest)
      else select_chunks terms top_k relevant_chunks rest)"

definition relevant_chunks :: "session \<Rightarrow> string \<Rightarrow> int \<Rightarrow> string list" where
  "relevant_chunks s query top_k = select_chunks (query_terms s query) top_k [] (chunks s)"

definition get_relevant_context :: "session \<Rightarrow> string \<Rightarrow> int \<Rightarrow> string" where
  "get_relevant_context s query top_k =
     (if relevant_chunks s query top_k = [] then ''No specific information found in the article.''
      else join '' '' (relevant_chunks s query top_k))"

section \<open>The fallback responder\<close>

text \<open>
  \<^verbatim>\<open>_handle_when_question\<close>. The two calls into \<^verbatim>\<open>datetime\<close> are parameters:
  \<open>strptime\<close> parses a string with the format \<^verbatim>\<open>%Y-%m-%d\<close> or raises, \<open>strftime\<close> prints
  the parsed date with \<^verbatim>\<open>%B %d, %Y\<close>. A value that is not a string makes
  \<^verbatim>\<open>datetime.strptime\<close> raise \<open>TypeError\<close>. Every exception ends in the handler's
  \<^verbatim>\<open>except\<close> branch.
\<close>

definition handle_when_question ::
  "(string \<Rightarrow> py_error + 'd) \<Rightarrow> ('d \<Rightarrow> string) \<Rightarrow> session \<Rightarrow> string" where
  "handle_when_question strptime strftime s =
     (let date = (case article_data s ''publication_date'' of None \<Rightarrow> PyStr [] | Some v \<Rightarrow> v)
      in if truthy date
         then (case (case date of PyStr d \<Rightarrow> strptime d | PyNone \<Rightarrow> Inl TypeError) of
                 Inr date_obj \<Rightarrow> ''Published on '' @ strftime date_obj
               | Inl e \<Rightarrow> ''Error retrieving publication date'')
         else ''Publication date not available'')"

text \<open>\<^verbatim>\<open>_handle_what_question\<close> and \<^verbatim>\<open>_handle_general_question\<close>: the same body.\<close>

definition handle_what_question :: "session \<Rightarrow> string \<Rightarrow> string" where
  "handle_what_question s question =
     (let context = get_relevant_context s question 3
      in if 100 < length context then py_slice context 0 100 @ ''...'' else context)"

definition handle_general_question :: "session \<Rightarrow> string \<Rightarrow> string" where
  "handle_general_question s question =
     (let context = get_relevant_context s question 3
      in if 100 < length context then py_slice context 0 100 @ ''...'' else context)"

text \<open>\<^verbatim>\<open>_handle_who_question\<close>: the test is on the key, the value is printed as it is.\<close>

definition handle_who_question :: "session \<Rightarrow> string" where
  "handle_who_question s =
     (case article_data s ''author'' of
        Some v \<Rightarrow> ''Author: '' @ py_str v
      | None \<Rightarrow> ''Author: N/A'')"

text \<open>
  \<^verbatim>\<open>_handle_summary_question\<close>: the default applies when the key is missing; a stored
  \<open>None\<close> reaches \<^verbatim>\<open>len\<close>, which raises \<open>TypeError\<close>.
\<close>

definition handle_summary_question :: "session \<Rightarrow> py_error + string" where
  "handle_summary_question s =
     (let summary = (case article_data s ''teaser_text'' of
                       None \<Rightarrow> PyStr ''No summary available.'' | Some v \<Rightarrow> v)
      in case summary of
           PyNone \<Rightarrow> Inl TypeError
         | PyStr t \<Rightarrow> Inr (if 100 < length t then py_slice t 0 100 @ ''...'' else t))"

text \<open>\<^verbatim>\<open>_handle_basic_response\<close>: the \<^verbatim>\<open>if\<close>/\<^verbatim>\<open>elif\<close> chain on the lower-cased input.\<close>

definition handle_basic_response ::
  "(string \<Rightarrow> py_error + 'd) \<Rightarrow> ('d \<Rightarrow> string) \<Rightarrow> session \<Rightarrow> string \<Rightarrow> py_error + string" where
  "handle_basic_response strptime strftime s user_input =
     (let user_input_lower = lower user_input
      in if any_in [''what'', ''tell me about''] user_input_lower
           then Inr (handle_what_question s user_input)
         else if any_in [''when'', ''date'', ''time''] user_input_lower
           then Inr (handle_when_question strptime strftime s)
         else if any_in [''who'', ''author''] user_input_lower
           then Inr (handle_who_question s)
         else if any_in [''summary'', ''overview'', ''about''] user_input_lower
           then handle_summary_question s
         else Inr (handle_general_question s user_input))"

section \<open>Asking a question: \<open>chat_with_article\<close>\<close>

text \<open>
  What \<^verbatim>\<open>send_message\<close> returns: an object whose \<^verbatim>\<open>text\<close> accessor yields the reply, or
  raises when the reply holds no text.
\<close>

datatype response = Response (response_text: "py_error + string")

definition build_prompt :: "session \<Rightarrow> string \<Rightarrow> string \<Rightarrow> string" where
  "build_prompt s context user_input =
     (let conversation_context =
            join ''\<newline>'' (map (\<lambda>(role, msg). role @ '': '' @ msg) (last3 (conversation_history s)))
      in ''You are a helpful AI assistant. You have access to both the article content and our conversation history.\<newline>\<newline>Previous conversation:\<newline>''
         @ conversation_context
         @ ''\<newline>\<newline>Article content: '' @ context
         @ ''\<newline>\<newline>Question: '' @ user_input
         @ ''\<newline>\<newline>Please provide a brief, direct answer that:\<newline>1. Answers the question in 1-2 sentences\<newline>2. Uses any available information (article, conversation history, or general knowledge)\<newline>3. Keeps the tone casual and natural\<newline>4. Focuses on the most important information\<newline>5. Don't mention where the information comes from\<newline>\<newline>Your response:'')"

text \<open>
  \<^verbatim>\<open>chat_with_article\<close> returns the answer and the session after the call. The whole
  body is inside \<^verbatim>\<open>try\<close>: when \<open>send_message\<close> raises, nothing has been appended; the
  user turn is appended before \<^verbatim>\<open>response.text\<close> is read for the assistant turn. In
  the \<^verbatim>\<open>except\<close> branch the fallback runs on the session as it is then, and what it
  raises leaves the method.
\<close>

definition chat_with_article ::
  "(string \<Rightarrow> py_error + response) \<Rightarrow> (string \<Rightarrow> py_error + 'd) \<Rightarrow> ('d \<Rightarrow> string) \<Rightarrow>
   session \<Rightarrow> string \<Rightarrow> (py_error + string) \<times> session" where
  "chat_with_article send_message strptime strftime s user_input =
     (let context = get_relevant_context s user_input 3;
          prompt = build_prompt s context user_input
      in case send_message prompt of
           Inl e \<Rightarrow> (handle_basic_response strptime strftime s user_input, s)
         | Inr response \<Rightarrow>
             (let s1 = s\<lparr>conversation_history := conversation_history s @ [(''user'', user_input)]\<rparr>
              in case response_text response of
                   Inl e \<Rightarrow> (handle_basic_response strptime strftime s1 user_input, s1)
                 | Inr reply \<Rightarrow>
                     (Inr reply,
                      s1\<lparr>conversation_history := conversation_history s1 @ [(''assistant'', reply)]\<rparr>)))"

section \<open>The two \<^verbatim>\<open>datetime\<close> calls\<close>

text \<open>
  A model of \<^verbatim>\<open>datetime.strptime(d, '%Y-%m-%d')\<close> and of
  \<^verbatim>\<open>strftime('%B %d, %Y')\<close> in the C locale, to run the handlers on stored dates. The
  year is four digits, the month \<open>1\<close> to \<open>12\<close> and the day \<open>1\<close> to \<open>31\<close> are one or two
  digits (the day may be a space and a digit); nothing may follow the day; the day must
  exist in that month of that year, and the year 0 does not exist. A date is the triple
  (year, month, day).
\<close>

type_synonym date = "nat \<times> nat \<times> nat"

definition digit_of :: "char \<Rightarrow> nat option" where
  "digit_of c = map_of (zip ''0123456789'' [0, 1, 2, 3, 4, 5, 6, 7, 8, 9]) c"

fun number_from :: "nat \<Rightarrow> string \<Rightarrow> nat option" where
  "number_from acc [] = Some acc"
| "number_from acc (c # cs) =
     (case digit_of c of None \<Rightarrow> None | Some d \<Rightarrow> number_from (10 * acc + d) cs)"

definition field_of :: "nat \<Rightarrow> string \<Rightarrow> nat option" where
  "field_of bound f =
     (if length f = 1 \<or> length f = 2
      then (case number_from 0 f of
              None \<Rightarrow> None
            | Some v \<Rightarrow> if 1 \<le> v \<and> v \<le> bound then Some v else None)
      else None)"

definition leap_year :: "nat \<Rightarrow> bool" where
  "leap_year y = (y mod 4 = 0 \<and> (y mod 100 \<noteq> 0 \<or> y mod 400 = 0))"

definition days_in_month :: "nat \<Rightarrow> nat \<Rightarrow> nat" where
  "days_in_month y m =
     (if m = 2 then (if leap_year y then 29 else 28)
      else if m = 4 \<or> m = 6 \<or> m = 9 \<or> m = 11 then 30 else 31)"

definition strptime_Ymd :: "string \<Rightarrow> py_error + date" where
  "strptime_Ymd d =
     (let y = take 4 d; after_y = drop 4 d;
          m = takeWhile (\<lambda>c. c \<noteq> CHR ''-'') (drop 1 after_y);
          after_m = dropWhile (\<lambda>c. c \<noteq> CHR ''-'') (drop 1 after_y);
          dd = drop 1 after_m;
          day = (if length dd = 2 \<and> take 1 dd = '' '' then drop 1 dd else dd)
      in if length y = 4 \<and> take 1 after_y = ''-'' \<and> take 1 after_m = ''-''
         then (case (number_from 0 y, field_of 12 m, field_of 31 day) of
                 (Some yv, Some mv, Some dv) \<Rightarrow>
                   if 1 \<le> yv \<and> dv \<le> days_in_month yv mv then Inr (yv, mv, dv)
                   else Inl ValueError
               | _ \<Rightarrow> Inl ValueError)
         else Inl ValueError)"

definition month_name :: "nat \<Rightarrow> string" where
  "month_name m =
     [''January'', ''February'', ''March'', ''April'', ''May'', ''June'', ''July'',
      ''August'', ''September'', ''October'', ''November'', ''December''] ! (m - 1)"

definition digit_char :: "nat \<Rightarrow> char" where
  "digit_char n = ''0123456789'' ! (n mod 10)"

fun strftime_BdY :: "date \<Rightarrow> string" where
  "strftime_BdY (y, m, d) =
     month_name m @ '' '' @ [digit_char (d div 10), digit_char d] @ '', ''
     @ [digit_char (y div 1000), digit_char (y div 100), digit_char (y div 10), digit_char y]"

section \<open>An article and its sessions\<close>

text \<open>
  The article of the end-to-end example: the text is ten times \<open>The sky is blue. \<close>, 170
  characters, so the segmenter gives a fragment of 100 characters and one of 70.
  \<open>sky_row\<close> holds the columns the article query selects, \<open>sky_data\<close> adds an author.
\<close>

definition sky_text :: string where
  "sky_text = concat (replicate 10 ''The sky is blue. '')"

definition sky_chunks :: "string list" where
  "sky_chunks =
     [''The sky is blue. The sky is blue. The sky is blue. The sky is blue. The sky is blue. The sky is blue'',
      ''. The sky is blue. The sky is blue. The sky is blue. The sky is blue. '']"

definition sky_row :: "string \<rightharpoonup> py_value" where
  "sky_row =
     [''id'' \<mapsto> PyStr ''a1'', ''teaser_text'' \<mapsto> PyStr ''A short piece about sky color.'',
      ''gemini_category'' \<mapsto> PyStr ''science'', ''gemini_sub_category'' \<mapsto> PyNone,
      ''title'' \<mapsto> PyStr ''Sky'', ''full_text'' \<mapsto> PyStr sky_text]"

definition sky_data :: "string \<rightharpoonup> py_value" where
  "sky_data = sky_row(''author'' \<mapsto> PyStr ''Jane Doe'')"

definition sky_session :: "(string \<rightharpoonup> py_value) \<Rightarrow> (string \<times> string) list \<Rightarrow> session" where
  "sky_session data ledger =
     \<lparr>article_id = ''a1'', article_data = data, article_text = sky_text,
      chunks = sky_chunks, conversation_history = ledger\<rparr>"

text \<open>
  The system turn that \<^verbatim>\<open>_initialize_chat\<close> records, and a ledger after two answered
  questions: its last three turns are the first reply, the second question and the
  second reply.
\<close>

definition initial_prompt :: "string \<Rightarrow> string" where
  "initial_prompt context =
     ''You are an AI assistant helping users understand this article. Here is the relevant content:\<newline>\<newline>''
     @ context
     @ ''\<newline>\<newline>Please help answer questions about this article. Use both the article content and our conversation history to provide relevant answers.''"

definition sky_ledger :: "string \<Rightarrow> string \<Rightarrow> (string \<times> string) list" where
  "sky_ledger first_question reply =
     [(''system'',
       initial_prompt (get_relevant_context (sky_session sky_data []) ''What is this article about?'' 3)),
      (''user'', first_question), (''assistant'', ''hello''),
      (''user'', ''colour?''), (''assistant'', reply)]"

text \<open>A row that holds the key \<open>id\<close> only.\<close>

definition bare_row :: "string \<rightharpoonup> py_value" where
  "bare_row = [''id'' \<mapsto> PyStr ''a1'']"

text \<open>
  A small session whose fragments are 24 characters long; the first fragment does not
  mention the sky, the next three do.
\<close>

definition weather_chunks :: "string list" where
  "weather_chunks =
     [''Rain falls in the night.'', '' The SKY is blue today. '',
      ''Blue &quot;sky&quot; ok '', ''Sky again.'']"

definition weather_session :: session where
  "weather_session =
     \<lparr>article_id = ''w1'', article_data = bare_row, article_text = concat weather_chunks,
      chunks = weather_chunks, conversation_history = []\<rparr>"

text \<open>
  The same ledger with a first reply that mentions the sky, so that the matching turn is
  the oldest of the last three.
\<close>

definition sky_ledger_sky_first :: "(string \<times> string) list" where
  "sky_ledger_sky_first =
     [(''system'',
       initial_prompt (get_relevant_context (sky_session sky_data []) ''What is this article about?'' 3)),
      (''user'', ''hi''), (''assistant'', ''the sky''),
      (''user'', ''colour?''), (''assistant'', ''no idea'')]"

text \<open>
  A service that raises on every prompt, and a service whose reply holds no text: the call
  returns, and reading \<^verbatim>\<open>response.text\<close> raises \<open>ValueError\<close>.
\<close>

definition service_down :: "string \<Rightarrow> py_error + response" where
  "service_down prompt = Inl ExternalError"

definition service_no_text :: "string \<Rightarrow> py_error + response" where
  "service_no_text prompt = Inr (Response (Inl ValueError))"

section \<open>The segmenter reassembles the text\<close>

lemma ceil_div_upper:
  fixes n c :: nat
  assumes "0 < c"
  shows "n \<le> ((n + c - 1) div c) * c"
proof -
  have "(n + c - 1) mod c < c" using assms by simp
  moreover have "(n + c - 1) div c * c + (n + c - 1) mod c = n + c - 1" by simp
  ultimately show ?thesis using assms by linarith
qed

lemma ceil_div_lower:
  fixes n c :: nat
  assumes "0 < c" "0 < n"
  shows "((n + c - 1) div c - 1) * c < n"
proof -
  have "(n + c - 1) div c * c + (n + c - 1) mod c = n + c - 1" by simp
  then have "(n + c - 1) div c * c \<le> n + c - 1" by linarith
  moreover have "((n + c - 1) div c - 1) * c = (n + c - 1) div c * c - c"
    by (simp add: diff_mult_distrib)
  ultimately show ?thesis using assms by linarith
qed

lemma range_len_pos:
  assumes "0 < step"
  shows "range_len 0 (int n) step = (n + nat step - 1) div nat step"
proof (cases "n = 0")
  case True
  then show ?thesis using assms by (simp add: range_len_def)
next
  case False
  have "int n + step - 1 = int (n + nat step - 1)" using assms False by simp
  moreover have "step = int (nat step)" using assms by simp
  ultimately have "(int n + step - 1) div step = int ((n + nat step - 1) div nat step)"
    by (metis zdiv_int)
  then show ?thesis using assms False by (simp add: range_len_def)
qed

lemma py_slice_chunk:
  "py_slice xs (int i) (int i + int c) = take c (drop i xs)"
  by (auto simp add: py_slice_def slice_bound_def Let_def min_def nat_add_distrib)

lemma concat_chunks: "concat (map (\<lambda>k. take c (drop (k * c) xs)) [0..<m]) = take (m * c) xs"
proof (induction m)
  case 0
  then show ?case by simp
next
  case (Suc m)
  have "take (m * c + c) xs = take (m * c) xs @ take c (drop (m * c) xs)"
    by (rule take_add)
  with Suc show ?case by (simp add: add.commute)
qed

text \<open>With a positive size the comprehension is the list of the consecutive slices.\<close>

lemma chunk_text_pos:
  assumes "0 < chunk_size"
  shows "chunk_text text chunk_size =
    Inr (map (\<lambda>k. take (nat chunk_size) (drop (k * nat chunk_size) text))
          [0 ..< (length text + nat chunk_size - 1) div nat chunk_size])"
proof -
  have c: "chunk_size = int (nat chunk_size)" using assms by simp
  have "py_slice text (int k * chunk_size) (int k * chunk_size + chunk_size) =
        take (nat chunk_size) (drop (k * nat chunk_size) text)" for k
    using py_slice_chunk [of "text" "k * nat chunk_size" "nat chunk_size"] c
    by (metis of_nat_mult)
  then show ?thesis
    using assms by (simp add: chunk_text_def py_range_def range_len_pos)
qed

lemma chunk_lengths:
  fixes c :: nat
  assumes "0 < c" and "k < (length xs + c - 1) div c"
  shows "0 < length (take c (drop (k * c) xs))"
    and "length (take c (drop (k * c) xs)) \<le> c"
    and "Suc k < (length xs + c - 1) div c \<Longrightarrow> length (take c (drop (k * c) xs)) = c"
proof -
  let ?m = "(length xs + c - 1) div c"
  have pos: "0 < length xs"
  proof (rule ccontr)
    assume "\<not> 0 < length xs"
    then have "?m = 0" using assms(1) by simp
    with assms(2) show False by simp
  qed
  have "k * c \<le> (?m - 1) * c" using assms(2) by (intro mult_le_mono1) simp
  also have "\<dots> < length xs" using ceil_div_lower [OF assms(1) pos] .
  finally show "0 < length (take c (drop (k * c) xs))" using assms(1) by simp
  show "length (take c (drop (k * c) xs)) \<le> c" by simp
  assume "Suc k < ?m"
  then have "Suc k * c \<le> (?m - 1) * c" by (intro mult_le_mono1) simp
  also have "\<dots> < length xs" using ceil_div_lower [OF assms(1) pos] .
  finally show "length (take c (drop (k * c) xs)) = c" by simp
qed

text \<open>
  Claim C3. For a positive chunk size, \<open>chunk_text\<close> returns a list of fragments whose
  concatenation, in order, is the text; every fragment is non-empty and at most
  \<open>chunk_size\<close> long, every fragment but the last is exactly \<open>chunk_size\<close> long, and the
  empty text gives the empty list.
\<close>

theorem chunk_text_reassembles:
  assumes "0 < chunk_size"
  shows "\<exists>fs. chunk_text text chunk_size = Inr fs \<and> concat fs = text \<and>
           (\<forall>k < length fs. 0 < length (fs ! k) \<and> int (length (fs ! k)) \<le> chunk_size \<and>
                (Suc k < length fs \<longrightarrow> int (length (fs ! k)) = chunk_size)) \<and>
           (text = [] \<longrightarrow> fs = [])"
proof -
  define c where "c = nat chunk_size"
  define m where "m = (length text + c - 1) div c"
  define fs where "fs = map (\<lambda>k. take c (drop (k * c) text)) [0 ..< m]"
  have c: "0 < c" "chunk_size = int c" using assms by (simp_all add: c_def)
  have eq: "chunk_text text chunk_size = Inr fs"
    using chunk_text_pos [OF assms] by (simp add: fs_def m_def c_def)
  have "concat fs = take (m * c) text" by (simp add: fs_def concat_chunks)
  moreover have "length text \<le> m * c" using ceil_div_upper [OF c(1)] by (simp add: m_def)
  ultimately have cat: "concat fs = text" by simp
  have len: "length fs = m" by (simp add: fs_def)
  have nth: "fs ! k = take c (drop (k * c) text)" if "k < m" for k
    using that by (simp add: fs_def)
  have each: "0 < length (fs ! k) \<and> int (length (fs ! k)) \<le> chunk_size \<and>
                (Suc k < length fs \<longrightarrow> int (length (fs ! k)) = chunk_size)" if "k < length fs" for k
  proof -
    have k: "k < (length text + c - 1) div c" using that len by (simp add: m_def)
    show ?thesis
      using chunk_lengths [OF c(1) k] nth [of k] that len c(2) by (simp add: m_def)
  qed
  have "text = [] \<longrightarrow> fs = []" using c(1) by (simp add: fs_def m_def)
  with eq cat each show ?thesis by blast
qed

theorem chunk_text_reassembles_witness:
  "(0::int) < 3 \<and> chunk_text ''abcdefg'' 3 = Inr [''abc'', ''def'', ''g''] \<and>
   concat [''abc'', ''def'', ''g''] = ''abcdefg'' \<and> chunk_text '''' 3 = Inr ([] :: string list)"
proof -
  have h: "(0::int) < 3" by simp
  have v: "chunk_text ''abcdefg'' 3 = Inr [''abc'', ''def'', ''g'']"
    by (simp add: chunk_text_def py_range_def range_len_def py_slice_def slice_bound_def
        upt_conv_Cons)
  obtain fs where fs: "chunk_text ''abcdefg'' 3 = Inr fs" "concat fs = ''abcdefg''"
    using chunk_text_reassembles [OF h, of "''abcdefg''"] by blast
  obtain es :: "string list" where es: "chunk_text '''' 3 = Inr es" "es = []"
    using chunk_text_reassembles [OF h, of "''''"] by blast
  from fs v have "concat [''abc'', ''def'', ''g''] = ''abcdefg''" by simp
  with h v es show ?thesis by simp
qed

text \<open>
  Claim C10. Outside the precondition: a zero chunk size raises \<open>ValueError\<close> (the step of
  the index range is zero), every negative chunk size gives the empty list whatever the
  text, and so for a non-empty text and a chunk size that is not positive there is no
  result whose concatenation is the text.
\<close>

theorem chunk_text_outside_precondition:
  "chunk_text text 0 = Inl ValueError \<and>
   (chunk_size < 0 \<longrightarrow> chunk_text text chunk_size = Inr []) \<and>
   (chunk_size \<le> 0 \<and> text \<noteq> [] \<longrightarrow>
      \<not> (\<exists>fs. chunk_text text chunk_size = Inr fs \<and> concat fs = text))"
proof -
  have zero: "chunk_text text 0 = Inl ValueError"
    by (simp add: chunk_text_def py_range_def)
  have neg: "chunk_text text chunk_size = Inr []" if "chunk_size < 0"
    using that by (simp add: chunk_text_def py_range_def range_len_def)
  have "\<not> (\<exists>fs. chunk_text text chunk_size = Inr fs \<and> concat fs = text)"
    if "chunk_size \<le> 0" "text \<noteq> []"
  proof (cases "chunk_size = 0")
    case True
    then show ?thesis using zero by simp
  next
    case False
    then have "chunk_text text chunk_size = Inr []" using that(1) neg by simp
    then show ?thesis using that(2) by auto
  qed
  with zero neg show ?thesis by blast
qed

theorem chunk_text_outside_precondition_witness:
  "chunk_text ''abc'' 0 = Inl ValueError \<and> (- 2 :: int) < 0 \<and>
   chunk_text ''abc'' (- 2) = Inr [] \<and> ''abc'' \<noteq> [] \<and>
   chunk_text ''abc'' (- 2) \<noteq> Inr [''abc'']"
  using chunk_text_outside_precondition [of "''abc''" "- 2"] by simp

text \<open>
  The fragments of the two example sessions are the segmenter's: of the sky article with
  the default size 100, of the small one with size 24.
\<close>

lemma sky_chunks_segmented: "chunk_text sky_text 100 = Inr sky_chunks"
  by code_simp

lemma weather_chunks_segmented: "chunk_text (concat weather_chunks) 24 = Inr weather_chunks"
  by code_simp

section \<open>Substrings, terms and the last three turns\<close>

text \<open>\<open>contains\<close> is the substring test.\<close>

lemma startswith_iff: "startswith s p \<longleftrightarrow> (\<exists>post. s = p @ post)"
  by (induction s p rule: startswith.induct) auto

lemma contains_iff: "contains s sub \<longleftrightarrow> (\<exists>pre post. s = pre @ sub @ post)"
proof (induction s)
  case Nil
  then show ?case by simp
next
  case (Cons c cs)
  show ?case
  proof
    assume "contains (c # cs) sub"
    then consider "startswith (c # cs) sub" | "contains cs sub" by auto
    then show "\<exists>pre post. c # cs = pre @ sub @ post"
    proof cases
      case 1
      then obtain post where "c # cs = sub @ post" by (auto simp: startswith_iff)
      then have "c # cs = [] @ sub @ post" by simp
      then show ?thesis by blast
    next
      case 2
      then obtain pre post where "cs = pre @ sub @ post" using Cons.IH by blast
      then have "c # cs = (c # pre) @ sub @ post" by simp
      then show ?thesis by blast
    qed
  next
    assume "\<exists>pre post. c # cs = pre @ sub @ post"
    then obtain pre post where eq: "c # cs = pre @ sub @ post" by blast
    show "contains (c # cs) sub"
    proof (cases pre)
      case Nil
      with eq have "startswith (c # cs) sub" by (auto simp: startswith_iff)
      then show ?thesis by simp
    next
      case (Cons p pre')
      with eq have "cs = pre' @ sub @ post" by simp
      then have "contains cs sub" using Cons.IH by blast
      then show ?thesis by simp
    qed
  qed
qed

lemma any_in_iff: "any_in words s \<longleftrightarrow> (\<exists>word \<in> set words. contains s word)"
  by (simp add: any_in_def list_ex_iff)

lemma last3_eq: "last3 xs = drop (length xs - 3) xs"
proof -
  have "nat (max 0 (int (length xs) - 3)) = length xs - 3" by linarith
  then show ?thesis by (simp add: last3_def slice_bound_def)
qed

text \<open>The term list is the question's tokens followed by the tokens of the last three turns.\<close>

lemma foldl_extend:
  "foldl (\<lambda>terms (role, message). terms @ f message) acc turns =
   acc @ concat (map (\<lambda>(role, message). f message) turns)"
  by (induction turns arbitrary: acc) (auto split: prod.splits)

lemma query_terms_eq:
  "query_terms s query =
   str_split (lower query) @
   concat (map (\<lambda>(role, message). str_split (lower message)) (last3 (conversation_history s)))"
  by (simp add: query_terms_def foldl_extend)

section \<open>The selection loop\<close>

text \<open>The loop, from any state of the list built so far.\<close>

lemma select_chunks_eq:
  "select_chunks terms top_k acc cs =
   acc @ take (nat (max 1 (top_k - int (length acc))))
           (map clean_chunk (filter (\<lambda>c. any_in terms (lower c)) cs))"
proof (induction cs arbitrary: acc)
  case Nil
  then show ?case by simp
next
  case (Cons chunk rest)
  show ?case
  proof (cases "any_in terms (lower chunk)")
    case False
    then show ?thesis using Cons.IH by simp
  next
    case True
    show ?thesis
    proof (cases "top_k \<le> int (length acc) + 1")
      case stop: True
      then have "nat (max 1 (top_k - int (length acc))) = 1" by simp
      then show ?thesis using True stop by simp
    next
      case go: False
      then have "nat (max 1 (top_k - int (length acc))) =
                 Suc (nat (max 1 (top_k - int (length (acc @ [clean_chunk chunk])))))"
        by simp
      then show ?thesis using True go Cons.IH [of "acc @ [clean_chunk chunk]"] by simp
    qed
  qed
qed

lemma relevant_chunks_eq:
  "relevant_chunks s query top_k =
   take (nat (max 1 top_k))
     (map clean_chunk (filter (\<lambda>c. any_in (query_terms s query) (lower c)) (chunks s)))"
  by (simp add: relevant_chunks_def select_chunks_eq)

lemma filter_first_match:
  assumes "i < length xs" "P (xs ! i)" "\<forall>j<i. \<not> P (xs ! j)"
  shows "filter P xs = xs ! i # filter P (drop (Suc i) xs)"
proof -
  have xs: "xs = take i xs @ xs ! i # drop (Suc i) xs"
    using assms(1) by (simp add: id_take_nth_drop)
  have "filter P (take i xs) = []"
    using assms(1,3) by (auto simp: filter_empty_conv in_set_conv_nth)
  then have "filter P (take i xs @ xs ! i # drop (Suc i) xs) = xs ! i # filter P (drop (Suc i) xs)"
    using assms(2) by simp
  with xs show ?thesis by simp
qed

text \<open>
  Claim C5, for \<open>top_k\<close> of at least 1. The loop keeps the cleaned text of the fragments
  that match (some term occurs in the lower-cased fragment), in document order, and stops
  once \<open>top_k\<close> fragments are selected: the selection is the first \<open>top_k\<close> matching
  fragments, cleaned, so at most \<open>top_k\<close> fragments contribute. When fragment \<open>i\<close> is the
  matching fragment of lowest index, the selection and the joined context start with the
  cleaned text of fragment \<open>i\<close>.
\<close>

theorem relevant_chunks_first_matches:
  assumes "1 \<le> top_k"
  shows "relevant_chunks s query top_k =
     take (nat top_k)
       (map clean_chunk (filter (\<lambda>c. any_in (query_terms s query) (lower c)) (chunks s))) \<and>
   int (length (relevant_chunks s query top_k)) \<le> top_k \<and>
   (i < length (chunks s) \<and> any_in (query_terms s query) (lower (chunks s ! i)) \<and>
    (\<forall>j<i. \<not> any_in (query_terms s query) (lower (chunks s ! j))) \<longrightarrow>
      (\<exists>rest. relevant_chunks s query top_k = clean_chunk (chunks s ! i) # rest \<and>
              get_relevant_context s query top_k = join '' '' (clean_chunk (chunks s ! i) # rest)))"
proof -
  let ?P = "\<lambda>c. any_in (query_terms s query) (lower c)"
  have k: "nat (max 1 top_k) = nat top_k" using assms by simp
  have eq: "relevant_chunks s query top_k =
            take (nat top_k) (map clean_chunk (filter ?P (chunks s)))"
    using relevant_chunks_eq [of s query top_k] k by simp
  have len: "int (length (relevant_chunks s query top_k)) \<le> top_k"
    unfolding eq using assms by simp
  have first: "\<exists>rest. relevant_chunks s query top_k = clean_chunk (chunks s ! i) # rest \<and>
              get_relevant_context s query top_k = join '' '' (clean_chunk (chunks s ! i) # rest)"
    if "i < length (chunks s)" "?P (chunks s ! i)" "\<forall>j<i. \<not> ?P (chunks s ! j)"
  proof -
    have "filter ?P (chunks s) = chunks s ! i # filter ?P (drop (Suc i) (chunks s))"
      using that by (rule filter_first_match)
    moreover have "nat top_k = Suc (nat top_k - 1)" using assms by simp
    ultimately have "relevant_chunks s query top_k =
        clean_chunk (chunks s ! i) #
          take (nat top_k - 1) (map clean_chunk (filter ?P (drop (Suc i) (chunks s))))"
      unfolding eq by (metis list.simps(9) take_Suc_Cons)
    then show ?thesis by (simp add: get_relevant_context_def)
  qed
  from eq len first show ?thesis by blast
qed

theorem relevant_chunks_first_matches_witness:
  "(1::int) \<le> 2 \<and>
   any_in (query_terms weather_session ''sky'') (lower (chunks weather_session ! 1)) \<and>
   \<not> any_in (query_terms weather_session ''sky'') (lower (chunks weather_session ! 0)) \<and>
   relevant_chunks weather_session ''sky'' 2 =
     [''The SKY is blue today.'', ''Blue '' @ [CHR 0x22] @ ''sky'' @ [CHR 0x22] @ '' ok''] \<and>
   int (length (relevant_chunks weather_session ''sky'' 2)) \<le> 2 \<and>
   get_relevant_context weather_session ''sky'' 2 =
     ''The SKY is blue today. Blue '' @ [CHR 0x22] @ ''sky'' @ [CHR 0x22] @ '' ok''"
proof -
  let ?s = weather_session
  have k: "(1::int) \<le> 2" by simp
  have i: "1 < length (chunks ?s)" by (simp add: weather_session_def weather_chunks_def)
  have m: "any_in (query_terms ?s ''sky'') (lower (chunks ?s ! 1))" by code_simp
  have n: "\<not> any_in (query_terms ?s ''sky'') (lower (chunks ?s ! 0))" by code_simp
  then have n': "\<forall>j<1. \<not> any_in (query_terms ?s ''sky'') (lower (chunks ?s ! j))" by simp
  have c: "clean_chunk (chunks ?s ! 1) = ''The SKY is blue today.''" by code_simp
  have r: "relevant_chunks ?s ''sky'' 2 =
     [''The SKY is blue today.'', ''Blue '' @ [CHR 0x22] @ ''sky'' @ [CHR 0x22] @ '' ok'']"
    by code_simp
  note first = relevant_chunks_first_matches [OF k, of ?s "''sky''" 1]
  have len: "int (length (relevant_chunks ?s ''sky'' 2)) \<le> 2" using first by blast
  obtain rest where rest: "relevant_chunks ?s ''sky'' 2 = clean_chunk (chunks ?s ! 1) # rest"
    "get_relevant_context ?s ''sky'' 2 = join '' '' (clean_chunk (chunks ?s ! 1) # rest)"
    using first i m n' by blast
  from rest(1) r c have "rest = [''Blue '' @ [CHR 0x22] @ ''sky'' @ [CHR 0x22] @ '' ok'']" by simp
  with rest(2) c have "get_relevant_context ?s ''sky'' 2 =
     ''The SKY is blue today. Blue '' @ [CHR 0x22] @ ''sky'' @ [CHR 0x22] @ '' ok''" by simp
  with k m n r len show ?thesis by simp
qed

text \<open>
  Without the bound on \<open>top_k\<close> the count fails: the length of the selection is tested only
  after an append, so with \<open>top_k = 0\<close> the first matching fragment is still selected and
  one fragment contributes.
\<close>

theorem relevant_chunks_top_k_counterexample:
  "relevant_chunks (sky_session sky_data (sky_ledger ''hi'' ''no idea'')) ''sky'' 0 =
     [''The sky is blue. The sky is blue. The sky is blue. The sky is blue. The sky is blue. The sky is blue''] \<and>
   \<not> int (length (relevant_chunks (sky_session sky_data (sky_ledger ''hi'' ''no idea'')) ''sky'' 0)) \<le> 0"
  by code_simp

text \<open>
  Claim C6. When no fragment's lower-cased text contains a term of the term list (the
  tokens of the query and of the last three turns), \<open>get_relevant_context\<close> returns the
  sentence \<open>No specific information found in the article.\<close>, for every \<open>top_k\<close>.
\<close>

theorem no_match_sentence:
  assumes "\<forall>chunk \<in> set (chunks s). \<forall>term \<in> set (query_terms s query). \<not> contains (lower chunk) term"
  shows "get_relevant_context s query top_k = ''No specific information found in the article.''"
proof -
  have "filter (\<lambda>c. any_in (query_terms s query) (lower c)) (chunks s) = []"
    using assms by (auto simp: filter_empty_conv any_in_iff)
  then have "relevant_chunks s query top_k = []" by (simp add: relevant_chunks_eq)
  then show ?thesis by (simp add: get_relevant_context_def)
qed

theorem no_match_sentence_witness:
  "\<not> list_ex (\<lambda>chunk. any_in (query_terms (sky_session sky_data (sky_ledger ''hi'' ''no idea'')) ''zzz'') (lower chunk))
       (chunks (sky_session sky_data (sky_ledger ''hi'' ''no idea''))) \<and>
   get_relevant_context (sky_session sky_data (sky_ledger ''hi'' ''no idea'')) ''zzz'' 3 =
     ''No specific information found in the article.''"
proof -
  let ?s = "sky_session sky_data (sky_ledger ''hi'' ''no idea'')"
  have h: "\<not> list_ex (\<lambda>chunk. any_in (query_terms ?s ''zzz'') (lower chunk)) (chunks ?s)"
    by code_simp
  then have "\<forall>chunk \<in> set (chunks ?s). \<forall>term \<in> set (query_terms ?s ''zzz''). \<not> contains (lower chunk) term"
    by (simp add: list_ex_iff any_in_iff)
  then have "get_relevant_context ?s ''zzz'' 3 = ''No specific information found in the article.''"
    by (rule no_match_sentence)
  with h show ?thesis by simp
qed

section \<open>The fallback handlers\<close>

lemma py_slice_prefix: "py_slice xs 0 (int n) = take n xs"
  using py_slice_chunk [of xs 0 n] by simp

lemma handle_what_question_eq:
  "handle_what_question s question =
     (if 100 < length (get_relevant_context s question 3)
      then take 100 (get_relevant_context s question 3) @ ''...''
      else get_relevant_context s question 3)"
  using py_slice_prefix [of "get_relevant_context s question 3" 100]
  by (simp add: handle_what_question_def Let_def)

lemma handle_general_question_eq:
  "handle_general_question s question =
     (if 100 < length (get_relevant_context s question 3)
      then take 100 (get_relevant_context s question 3) @ ''...''
      else get_relevant_context s question 3)"
  using py_slice_prefix [of "get_relevant_context s question 3" 100]
  by (simp add: handle_general_question_def Let_def)

lemma get_relevant_context_cong:
  assumes "chunks s' = chunks s"
    and "last3 (conversation_history s') = last3 (conversation_history s)"
  shows "get_relevant_context s' query top_k = get_relevant_context s query top_k"
  using assms by (simp add: get_relevant_context_def relevant_chunks_def query_terms_def)

text \<open>
  Claim C1, as the code has it. For a question whose lower-cased text contains \<open>what\<close>
  or \<open>tell me about\<close>, the fallback answer is the context of \<open>get_relevant_context\<close>
  for that question, cut to 100 characters and an ellipsis when longer. That context is
  selected with the question's terms extended by the tokens of the last three turns of
  the ledger, as on the primary path: the answer depends on the session through its
  fragments and its last three turns only, and not on older turns.
\<close>

theorem what_question_reads_ledger:
  assumes "any_in [''what'', ''tell me about''] (lower question)"
  shows "handle_basic_response strptime strftime s question =
           Inr (if 100 < length (get_relevant_context s question 3)
                then take 100 (get_relevant_context s question 3) @ ''...''
                else get_relevant_context s question 3) \<and>
         relevant_chunks s question 3 =
           select_chunks
             (str_split (lower question) @
              concat (map (\<lambda>(role, message). str_split (lower message))
                        (last3 (conversation_history s))))
             3 [] (chunks s) \<and>
         (chunks s' = chunks s \<and>
          last3 (conversation_history s') = last3 (conversation_history s) \<longrightarrow>
            handle_basic_response strptime strftime s' question =
            handle_basic_response strptime strftime s question)"
proof -
  have disp: "handle_basic_response strptime strftime t question = Inr (handle_what_question t question)"
    for t
    using assms by (simp add: handle_basic_response_def Let_def)
  have sel: "relevant_chunks s question 3 =
           select_chunks
             (str_split (lower question) @
              concat (map (\<lambda>(role, message). str_split (lower message))
                        (last3 (conversation_history s))))
             3 [] (chunks s)"
    by (simp add: relevant_chunks_def query_terms_eq)
  have "handle_what_question s' question = handle_what_question s question"
    if "chunks s' = chunks s" "last3 (conversation_history s') = last3 (conversation_history s)"
    using get_relevant_context_cong [OF that] by (simp add: handle_what_question_def)
  with disp sel show ?thesis by (simp add: handle_what_question_eq)
qed

theorem what_question_reads_ledger_witness:
  "any_in [''what'', ''tell me about''] (lower ''what zzz'') \<and>
   handle_basic_response strptime_Ymd strftime_BdY
     (sky_session sky_data (sky_ledger ''hi'' ''the sky'')) ''what zzz'' =
     Inr ''The sky is blue. The sky is blue. The sky is blue. The sky is blue. The sky is blue. The sky is blue...'' \<and>
   handle_basic_response strptime_Ymd strftime_BdY
     (sky_session sky_data (sky_ledger ''sky?'' ''the sky'')) ''what zzz'' =
     Inr ''The sky is blue. The sky is blue. The sky is blue. The sky is blue. The sky is blue. The sky is blue...''"
proof -
  let ?s = "sky_session sky_data (sky_ledger ''hi'' ''the sky'')"
  let ?s' = "sky_session sky_data (sky_ledger ''sky?'' ''the sky'')"
  have h: "any_in [''what'', ''tell me about''] (lower ''what zzz'')" by code_simp
  have c: "chunks ?s' = chunks ?s" by (simp add: sky_session_def)
  have l: "last3 (conversation_history ?s') = last3 (conversation_history ?s)"
    by (simp add: sky_session_def sky_ledger_def last3_def slice_bound_def)
  have v: "handle_basic_response strptime_Ymd strftime_BdY ?s ''what zzz'' =
     Inr ''The sky is blue. The sky is blue. The sky is blue. The sky is blue. The sky is blue. The sky is blue...''"
    by code_simp
  have "handle_basic_response strptime_Ymd strftime_BdY ?s' ''what zzz'' =
        handle_basic_response strptime_Ymd strftime_BdY ?s ''what zzz''"
    using what_question_reads_ledger [OF h, of strptime_Ymd strftime_BdY ?s ?s'] c l by blast
  with h v show ?thesis by simp
qed

text \<open>
  The answer to a what-question is not independent of the ledger: two sessions on the same
  article whose ledgers differ in the last reply answer \<open>what zzz\<close> differently.
\<close>

theorem what_question_ledger_counterexample:
  "any_in [''what'', ''tell me about''] (lower ''what zzz'') \<and>
   chunks (sky_session sky_data (sky_ledger ''hi'' ''no idea'')) =
     chunks (sky_session sky_data (sky_ledger ''hi'' ''the sky'')) \<and>
   handle_basic_response strptime_Ymd strftime_BdY
     (sky_session sky_data (sky_ledger ''hi'' ''no idea'')) ''what zzz'' =
     Inr ''No specific information found in the article.'' \<and>
   handle_basic_response strptime_Ymd strftime_BdY
     (sky_session sky_data (sky_ledger ''hi'' ''the sky'')) ''what zzz'' =
     Inr ''The sky is blue. The sky is blue. The sky is blue. The sky is blue. The sky is blue. The sky is blue...'' \<and>
   handle_basic_response strptime_Ymd strftime_BdY
     (sky_session sky_data (sky_ledger ''hi'' ''no idea'')) ''what zzz'' \<noteq>
   handle_basic_response strptime_Ymd strftime_BdY
     (sky_session sky_data (sky_ledger ''hi'' ''the sky'')) ''what zzz''"
proof -
  have h: "any_in [''what'', ''tell me about''] (lower ''what zzz'')" by code_simp
  have c: "chunks (sky_session sky_data (sky_ledger ''hi'' ''no idea'')) =
     chunks (sky_session sky_data (sky_ledger ''hi'' ''the sky''))" by (simp add: sky_session_def)
  have a: "handle_basic_response strptime_Ymd strftime_BdY
     (sky_session sky_data (sky_ledger ''hi'' ''no idea'')) ''what zzz'' =
     Inr ''No specific information found in the article.''" by code_simp
  have b: "handle_basic_response strptime_Ymd strftime_BdY
     (sky_session sky_data (sky_ledger ''hi'' ''the sky'')) ''what zzz'' =
     Inr ''The sky is blue. The sky is blue. The sky is blue. The sky is blue. The sky is blue. The sky is blue...''"
    by code_simp
  show ?thesis unfolding a b using h c by simp
qed

text \<open>
  Claim C2, as the code has it. For a question whose lower-cased text contains \<open>when\<close>,
  \<open>date\<close> or \<open>time\<close>, and neither \<open>what\<close> nor \<open>tell me about\<close> (which are tested first):
  a stored non-empty date that parses gives \<open>Published on\<close> followed by the formatted
  date; a stored non-empty date that fails to parse gives
  \<open>Error retrieving publication date\<close>; a date that is absent, \<open>None\<close> or empty gives
  \<open>Publication date not available\<close>.
\<close>

theorem when_question_answers:
  assumes "\<not> any_in [''what'', ''tell me about''] (lower question)"
    and "any_in [''when'', ''date'', ''time''] (lower question)"
  shows "(article_data s ''publication_date'' = Some (PyStr d) \<and> d \<noteq> [] \<and>
            strptime d = Inr date_obj \<longrightarrow>
            handle_basic_response strptime strftime s question =
              Inr (''Published on '' @ strftime date_obj)) \<and>
         (article_data s ''publication_date'' = Some (PyStr d) \<and> d \<noteq> [] \<and>
            strptime d = Inl e \<longrightarrow>
            handle_basic_response strptime strftime s question =
              Inr ''Error retrieving publication date'') \<and>
         (article_data s ''publication_date'' = None \<or>
          article_data s ''publication_date'' = Some PyNone \<or>
          article_data s ''publication_date'' = Some (PyStr []) \<longrightarrow>
            handle_basic_response strptime strftime s question =
              Inr ''Publication date not available'')"
proof -
  have disp: "handle_basic_response strptime strftime s question =
              Inr (handle_when_question strptime strftime s)"
    using assms by (simp add: handle_basic_response_def Let_def)
  show ?thesis
    unfolding disp by (auto simp add: handle_when_question_def)
qed

theorem when_question_answers_witness:
  "\<not> any_in [''what'', ''tell me about''] (lower ''When was it published?'') \<and>
   any_in [''when'', ''date'', ''time''] (lower ''When was it published?'') \<and>
   handle_basic_response strptime_Ymd strftime_BdY
     (sky_session (sky_row(''publication_date'' \<mapsto> PyStr ''2024-03-05'')) (sky_ledger ''hi'' ''no idea''))
     ''When was it published?'' = Inr ''Published on March 05, 2024'' \<and>
   handle_basic_response strptime_Ymd strftime_BdY
     (sky_session (sky_row(''publication_date'' \<mapsto> PyStr ''March 5'')) (sky_ledger ''hi'' ''no idea''))
     ''When was it published?'' = Inr ''Error retrieving publication date'' \<and>
   handle_basic_response strptime_Ymd strftime_BdY
     (sky_session sky_row (sky_ledger ''hi'' ''no idea''))
     ''When was it published?'' = Inr ''Publication date not available''"
proof -
  let ?q = "''When was it published?''"
  let ?l = "sky_ledger ''hi'' ''no idea''"
  have h1: "\<not> any_in [''what'', ''tell me about''] (lower ?q)" by code_simp
  have h2: "any_in [''when'', ''date'', ''time''] (lower ?q)" by code_simp
  have p: "strptime_Ymd ''2024-03-05'' = Inr (2024, 3, 5)" by code_simp
  have f: "strftime_BdY (2024, 3, 5) = ''March 05, 2024''" by code_simp
  have e: "strptime_Ymd ''March 5'' = Inl ValueError" by code_simp
  have a: "handle_basic_response strptime_Ymd strftime_BdY
     (sky_session (sky_row(''publication_date'' \<mapsto> PyStr ''2024-03-05'')) ?l) ?q =
     Inr (''Published on '' @ strftime_BdY (2024, 3, 5))"
    using when_question_answers [where s = "sky_session (sky_row(''publication_date'' \<mapsto> PyStr ''2024-03-05'')) ?l"
        and d = "''2024-03-05''" and strptime = strptime_Ymd and date_obj = "(2024, 3, 5)"
        and strftime = strftime_BdY, OF h1 h2] p
    by (simp add: sky_session_def)
  have b: "handle_basic_response strptime_Ymd strftime_BdY
     (sky_session (sky_row(''publication_date'' \<mapsto> PyStr ''March 5'')) ?l) ?q =
     Inr ''Error retrieving publication date''"
    using when_question_answers [where s = "sky_session (sky_row(''publication_date'' \<mapsto> PyStr ''March 5'')) ?l"
        and d = "''March 5''" and strptime = strptime_Ymd and e = ValueError
        and strftime = strftime_BdY, OF h1 h2] e
    by (simp add: sky_session_def)
  have c: "handle_basic_response strptime_Ymd strftime_BdY (sky_session sky_row ?l) ?q =
     Inr ''Publication date not available''"
    using when_question_answers [where s = "sky_session sky_row ?l" and strptime = strptime_Ymd
        and strftime = strftime_BdY, OF h1 h2]
    by (simp add: sky_session_def sky_row_def)
  from h1 h2 a b c f show ?thesis by simp
qed

text \<open>
  The two fixed answers are paired the other way round than the claim pairs them: an
  absent date does not give \<open>Error retrieving publication date\<close>, and a date that fails to
  parse does not give \<open>Publication date not available\<close>.
\<close>

theorem when_question_counterexample:
  "any_in [''when'', ''date'', ''time''] (lower ''When was it published?'') \<and>
   article_data (sky_session sky_row (sky_ledger ''hi'' ''no idea'')) ''publication_date'' = None \<and>
   handle_basic_response strptime_Ymd strftime_BdY
     (sky_session sky_row (sky_ledger ''hi'' ''no idea''))
     ''When was it published?'' \<noteq> Inr ''Error retrieving publication date'' \<and>
   strptime_Ymd ''March 5'' = Inl ValueError \<and>
   handle_basic_response strptime_Ymd strftime_BdY
     (sky_session (sky_row(''publication_date'' \<mapsto> PyStr ''March 5'')) (sky_ledger ''hi'' ''no idea''))
     ''When was it published?'' \<noteq> Inr ''Publication date not available''"
  by code_simp

text \<open>
  Claim C7. On the three truncating paths the source string (the retrieved context for
  the what-handler and the general handler, the stored summary or the fixed sentence for
  the summary handler) is returned unchanged when it has at most 100 characters, and as
  its first 100 characters followed by \<open>...\<close> when it is longer.
\<close>

theorem truncating_paths:
  "handle_what_question s question =
     (if 100 < length (get_relevant_context s question 3)
      then take 100 (get_relevant_context s question 3) @ ''...''
      else get_relevant_context s question 3) \<and>
   handle_general_question s question =
     (if 100 < length (get_relevant_context s question 3)
      then take 100 (get_relevant_context s question 3) @ ''...''
      else get_relevant_context s question 3) \<and>
   (article_data s ''teaser_text'' = Some (PyStr summary) \<longrightarrow>
      handle_summary_question s =
        Inr (if 100 < length summary then take 100 summary @ ''...'' else summary)) \<and>
   (article_data s ''teaser_text'' = None \<longrightarrow>
      handle_summary_question s = Inr ''No summary available.'')"
  using py_slice_prefix [of summary 100]
  by (simp add: handle_what_question_eq handle_general_question_eq handle_summary_question_def)

theorem truncating_paths_witness:
  "handle_what_question (sky_session sky_data (sky_ledger ''hi'' ''no idea'')) ''what colour is the sky'' =
     ''The sky is blue. The sky is blue. The sky is blue. The sky is blue. The sky is blue. The sky is blue...'' \<and>
   handle_general_question (sky_session sky_data (sky_ledger ''hi'' ''no idea'')) ''zzz'' =
     ''No specific information found in the article.'' \<and>
   handle_summary_question (sky_session sky_data (sky_ledger ''hi'' ''no idea'')) =
     Inr ''A short piece about sky color.'' \<and>
   handle_summary_question (sky_session (sky_row(''teaser_text'' \<mapsto> PyStr sky_text)) (sky_ledger ''hi'' ''no idea'')) =
     Inr ''The sky is blue. The sky is blue. The sky is blue. The sky is blue. The sky is blue. The sky is blue...'' \<and>
   handle_summary_question (sky_session bare_row (sky_ledger ''hi'' ''no idea'')) =
     Inr ''No summary available.''"
proof -
  let ?l = "sky_ledger ''hi'' ''no idea''"
  let ?s = "sky_session sky_data ?l"
  have c1: "get_relevant_context ?s ''what colour is the sky'' 3 =
    ''The sky is blue. The sky is blue. The sky is blue. The sky is blue. The sky is blue. The sky is blue . The sky is blue. The sky is blue. The sky is blue. The sky is blue.''"
    by code_simp
  have c2: "get_relevant_context ?s ''zzz'' 3 = ''No specific information found in the article.''"
    by code_simp
  have t: "sky_text = ''The sky is blue. The sky is blue. The sky is blue. The sky is blue. The sky is blue. The sky is blue. The sky is blue. The sky is blue. The sky is blue. The sky is blue. ''"
    by code_simp
  have a: "handle_what_question ?s ''what colour is the sky'' =
     ''The sky is blue. The sky is blue. The sky is blue. The sky is blue. The sky is blue. The sky is blue...''"
    using truncating_paths [of ?s "''what colour is the sky''"] unfolding c1 by simp
  have b: "handle_general_question ?s ''zzz'' = ''No specific information found in the article.''"
    using truncating_paths [of ?s "''zzz''"] unfolding c2 by simp
  have c: "handle_summary_question ?s = Inr ''A short piece about sky color.''"
    using truncating_paths [of ?s _ "''A short piece about sky color.''"]
    by (simp add: sky_session_def sky_data_def sky_row_def)
  have d: "handle_summary_question (sky_session (sky_row(''teaser_text'' \<mapsto> PyStr sky_text)) ?l) =
     Inr ''The sky is blue. The sky is blue. The sky is blue. The sky is blue. The sky is blue. The sky is blue...''"
    using truncating_paths [of "sky_session (sky_row(''teaser_text'' \<mapsto> PyStr sky_text)) ?l" _ sky_text]
    unfolding t by (simp add: sky_session_def)
  have e: "handle_summary_question (sky_session bare_row ?l) = Inr ''No summary available.''"
    using truncating_paths [of "sky_session bare_row ?l"]
    by (simp add: sky_session_def bare_row_def)
  from a b c d e show ?thesis by simp
qed

text \<open>
  Claim C8, as the code has it. The dispatch tests the lower-cased question in the order
  what/tell me about, when/date/time, who/author, summary/overview/about, and the first
  category that matches decides; the general handler is the default. A question with both
  \<open>what\<close> and \<open>who\<close> gets the what-handler's answer; a question with both \<open>when\<close> and
  \<open>who\<close> gets the when-handler's answer provided it contains neither \<open>what\<close> nor
  \<open>tell me about\<close>.
\<close>

theorem dispatch_order:
  "(any_in [''what'', ''tell me about''] (lower question) \<longrightarrow>
      handle_basic_response strptime strftime s question = Inr (handle_what_question s question)) \<and>
   (\<not> any_in [''what'', ''tell me about''] (lower question) \<and>
    any_in [''when'', ''date'', ''time''] (lower question) \<longrightarrow>
      handle_basic_response strptime strftime s question =
        Inr (handle_when_question strptime strftime s)) \<and>
   (\<not> any_in [''what'', ''tell me about''] (lower question) \<and>
    \<not> any_in [''when'', ''date'', ''time''] (lower question) \<and>
    any_in [''who'', ''author''] (lower question) \<longrightarrow>
      handle_basic_response strptime strftime s question = Inr (handle_who_question s)) \<and>
   (\<not> any_in [''what'', ''tell me about''] (lower question) \<and>
    \<not> any_in [''when'', ''date'', ''time''] (lower question) \<and>
    \<not> any_in [''who'', ''author''] (lower question) \<and>
    any_in [''summary'', ''overview'', ''about''] (lower question) \<longrightarrow>
      handle_basic_response strptime strftime s question = handle_summary_question s) \<and>
   (\<not> any_in [''what'', ''tell me about''] (lower question) \<and>
    \<not> any_in [''when'', ''date'', ''time''] (lower question) \<and>
    \<not> any_in [''who'', ''author''] (lower question) \<and>
    \<not> any_in [''summary'', ''overview'', ''about''] (lower question) \<longrightarrow>
      handle_basic_response strptime strftime s question =
        Inr (handle_general_question s question)) \<and>
   (contains (lower question) ''what'' \<and> contains (lower question) ''who'' \<longrightarrow>
      handle_basic_response strptime strftime s question = Inr (handle_what_question s question)) \<and>
   (contains (lower question) ''when'' \<and> contains (lower question) ''who'' \<and>
    \<not> contains (lower question) ''what'' \<and> \<not> contains (lower question) ''tell me about'' \<longrightarrow>
      handle_basic_response strptime strftime s question =
        Inr (handle_when_question strptime strftime s))"
  by (simp add: handle_basic_response_def Let_def any_in_def)

theorem dispatch_order_witness:
  "handle_basic_response strptime_Ymd strftime_BdY (sky_session sky_data (sky_ledger ''hi'' ''no idea'')) ''What is the sky?'' =
     Inr (handle_what_question (sky_session sky_data (sky_ledger ''hi'' ''no idea'')) ''What is the sky?'') \<and>
   handle_basic_response strptime_Ymd strftime_BdY (sky_session sky_data (sky_ledger ''hi'' ''no idea'')) ''When was it published?'' =
     Inr (handle_when_question strptime_Ymd strftime_BdY (sky_session sky_data (sky_ledger ''hi'' ''no idea''))) \<and>
   handle_basic_response strptime_Ymd strftime_BdY (sky_session sky_data (sky_ledger ''hi'' ''no idea'')) ''who wrote this?'' =
     Inr (handle_who_question (sky_session sky_data (sky_ledger ''hi'' ''no idea''))) \<and>
   handle_basic_response strptime_Ymd strftime_BdY (sky_session sky_data (sky_ledger ''hi'' ''no idea'')) ''give me an overview'' =
     handle_summary_question (sky_session sky_data (sky_ledger ''hi'' ''no idea'')) \<and>
   handle_basic_response strptime_Ymd strftime_BdY (sky_session sky_data (sky_ledger ''hi'' ''no idea'')) ''colour of the sky'' =
     Inr (handle_general_question (sky_session sky_data (sky_ledger ''hi'' ''no idea'')) ''colour of the sky'') \<and>
   handle_basic_response strptime_Ymd strftime_BdY (sky_session sky_data (sky_ledger ''hi'' ''no idea'')) ''Who said what?'' =
     Inr (handle_what_question (sky_session sky_data (sky_ledger ''hi'' ''no idea'')) ''Who said what?'') \<and>
   handle_basic_response strptime_Ymd strftime_BdY (sky_session sky_data (sky_ledger ''hi'' ''no idea'')) ''who knows when'' =
     Inr (handle_when_question strptime_Ymd strftime_BdY (sky_session sky_data (sky_ledger ''hi'' ''no idea'')))"
proof -
  let ?s = "sky_session sky_data (sky_ledger ''hi'' ''no idea'')"
  note d = dispatch_order [where strptime = strptime_Ymd and strftime = strftime_BdY and s = ?s]
  have q1: "any_in [''what'', ''tell me about''] (lower ''What is the sky?'')" by code_simp
  have q2: "\<not> any_in [''what'', ''tell me about''] (lower ''When was it published?'') \<and>
            any_in [''when'', ''date'', ''time''] (lower ''When was it published?'')" by code_simp
  have q3: "\<not> any_in [''what'', ''tell me about''] (lower ''who wrote this?'') \<and>
            \<not> any_in [''when'', ''date'', ''time''] (lower ''who wrote this?'') \<and>
            any_in [''who'', ''author''] (lower ''who wrote this?'')" by code_simp
  have q4: "\<not> any_in [''what'', ''tell me about''] (lower ''give me an overview'') \<and>
            \<not> any_in [''when'', ''date'', ''time''] (lower ''give me an overview'') \<and>
            \<not> any_in [''who'', ''author''] (lower ''give me an overview'') \<and>
            any_in [''summary'', ''overview'', ''about''] (lower ''give me an overview'')" by code_simp
  have q5: "\<not> any_in [''what'', ''tell me about''] (lower ''colour of the sky'') \<and>
            \<not> any_in [''when'', ''date'', ''time''] (lower ''colour of the sky'') \<and>
            \<not> any_in [''who'', ''author''] (lower ''colour of the sky'') \<and>
            \<not> any_in [''summary'', ''overview'', ''about''] (lower ''colour of the sky'')" by code_simp
  have q6: "contains (lower ''Who said what?'') ''what'' \<and> contains (lower ''Who said what?'') ''who''"
    by code_simp
  have q7: "contains (lower ''who knows when'') ''when'' \<and> contains (lower ''who knows when'') ''who'' \<and>
            \<not> contains (lower ''who knows when'') ''what'' \<and>
            \<not> contains (lower ''who knows when'') ''tell me about''" by code_simp
  have r1: "handle_basic_response strptime_Ymd strftime_BdY ?s ''What is the sky?'' =
     Inr (handle_what_question ?s ''What is the sky?'')"
    using d [of "''What is the sky?''"] q1 by blast
  have r2: "handle_basic_response strptime_Ymd strftime_BdY ?s ''When was it published?'' =
     Inr (handle_when_question strptime_Ymd strftime_BdY ?s)"
    using d [of "''When was it published?''"] q2 by blast
  have r3: "handle_basic_response strptime_Ymd strftime_BdY ?s ''who wrote this?'' =
     Inr (handle_who_question ?s)"
    using d [of "''who wrote this?''"] q3 by blast
  have r4: "handle_basic_response strptime_Ymd strftime_BdY ?s ''give me an overview'' =
     handle_summary_question ?s"
    using d [of "''give me an overview''"] q4 by blast
  have r5: "handle_basic_response strptime_Ymd strftime_BdY ?s ''colour of the sky'' =
     Inr (handle_general_question ?s ''colour of the sky'')"
    using d [of "''colour of the sky''"] q5 by blast
  have r6: "handle_basic_response strptime_Ymd strftime_BdY ?s ''Who said what?'' =
     Inr (handle_what_question ?s ''Who said what?'')"
    using d [of "''Who said what?''"] q6 by blast
  have r7: "handle_basic_response strptime_Ymd strftime_BdY ?s ''who knows when'' =
     Inr (handle_when_question strptime_Ymd strftime_BdY ?s)"
    using d [of "''who knows when''"] q7 by blast
  from r1 r2 r3 r4 r5 r6 r7 show ?thesis by (intro conjI)
qed

text \<open>
  A question with \<open>when\<close> and \<open>who\<close> that also contains \<open>what\<close> is answered by the
  what-handler, and that answer differs from the when-handler's.
\<close>

theorem dispatch_order_counterexample:
  "contains (lower ''who said what and when'') ''when'' \<and>
   contains (lower ''who said what and when'') ''who'' \<and>
   handle_basic_response strptime_Ymd strftime_BdY
     (sky_session sky_data (sky_ledger ''hi'' ''no idea'')) ''who said what and when'' =
     Inr ''No specific information found in the article.'' \<and>
   handle_when_question strptime_Ymd strftime_BdY (sky_session sky_data (sky_ledger ''hi'' ''no idea'')) =
     ''Publication date not available'' \<and>
   handle_basic_response strptime_Ymd strftime_BdY
     (sky_session sky_data (sky_ledger ''hi'' ''no idea'')) ''who said what and when'' \<noteq>
     Inr (handle_when_question strptime_Ymd strftime_BdY (sky_session sky_data (sky_ledger ''hi'' ''no idea'')))"
  by code_simp

text \<open>
  Claim C9, as the code has it. The who-handler tests the key: with the key \<open>author\<close>
  present it returns \<open>Author: \<close> followed by the stored value as printed, also when the
  value is \<open>None\<close> (\<open>Author: None\<close>) or empty; with the key absent it returns
  \<open>Author: N/A\<close>. The answer is \<open>Author: N/A\<close> exactly when the key is absent or the
  stored value is the string \<open>N/A\<close>.
\<close>

theorem who_question_by_key:
  "(article_data s ''author'' = Some v \<longrightarrow> handle_who_question s = ''Author: '' @ py_str v) \<and>
   (article_data s ''author'' = Some PyNone \<longrightarrow> handle_who_question s = ''Author: None'') \<and>
   (article_data s ''author'' = Some (PyStr []) \<longrightarrow> handle_who_question s = ''Author: '') \<and>
   (article_data s ''author'' = None \<longrightarrow> handle_who_question s = ''Author: N/A'') \<and>
   (handle_who_question s = ''Author: N/A'' \<longleftrightarrow>
      article_data s ''author'' = None \<or> article_data s ''author'' = Some (PyStr ''N/A''))"
proof -
  have "py_str v = ''N/A'' \<longleftrightarrow> v = PyStr ''N/A''" for v
    by (cases v) auto
  then show ?thesis
    by (auto simp add: handle_who_question_def split: option.splits)
qed

theorem who_question_by_key_witness:
  "handle_who_question (sky_session sky_data (sky_ledger ''hi'' ''no idea'')) = ''Author: Jane Doe'' \<and>
   handle_who_question (sky_session (sky_row(''author'' \<mapsto> PyNone)) (sky_ledger ''hi'' ''no idea'')) = ''Author: None'' \<and>
   handle_who_question (sky_session (sky_row(''author'' \<mapsto> PyStr [])) (sky_ledger ''hi'' ''no idea'')) = ''Author: '' \<and>
   article_data (sky_session sky_row (sky_ledger ''hi'' ''no idea'')) ''author'' = None \<and>
   handle_who_question (sky_session sky_row (sky_ledger ''hi'' ''no idea'')) = ''Author: N/A''"
proof -
  let ?l = "sky_ledger ''hi'' ''no idea''"
  have a: "handle_who_question (sky_session sky_data ?l) = ''Author: Jane Doe''"
    using who_question_by_key [of "sky_session sky_data ?l" "PyStr ''Jane Doe''"]
    by (simp add: sky_session_def sky_data_def)
  have b: "handle_who_question (sky_session (sky_row(''author'' \<mapsto> PyNone)) ?l) = ''Author: None''"
    using who_question_by_key [of "sky_session (sky_row(''author'' \<mapsto> PyNone)) ?l"]
    by (simp add: sky_session_def)
  have c: "handle_who_question (sky_session (sky_row(''author'' \<mapsto> PyStr [])) ?l) = ''Author: ''"
    using who_question_by_key [of "sky_session (sky_row(''author'' \<mapsto> PyStr [])) ?l"]
    by (simp add: sky_session_def)
  have n: "article_data (sky_session sky_row ?l) ''author'' = None"
    by (simp add: sky_session_def sky_row_def)
  have d: "handle_who_question (sky_session sky_row ?l) = ''Author: N/A''"
    using who_question_by_key [of "sky_session sky_row ?l"] n by simp
  from a b c n d show ?thesis by simp
qed

text \<open>
  \<open>Author: N/A\<close> is also the answer when the key is present and holds the string
  \<open>N/A\<close>.
\<close>

theorem who_question_absent_counterexample:
  "article_data (sky_session (sky_row(''author'' \<mapsto> PyStr ''N/A'')) (sky_ledger ''hi'' ''no idea'')) ''author'' \<noteq> None \<and>
   handle_who_question (sky_session (sky_row(''author'' \<mapsto> PyStr ''N/A'')) (sky_ledger ''hi'' ''no idea'')) =
     ''Author: N/A''"
  by (simp add: sky_session_def handle_who_question_def)

section \<open>Failure of the answering service\<close>

text \<open>
  When \<open>send_message\<close> raises, whatever the error, \<open>chat_with_article\<close> returns what the
  fallback responder returns for the question on the session as it was, and the session
  after the call is the session before it: the ledger has neither a user turn nor an
  assistant turn for the exchange.
\<close>

lemma fallback_keeps_ledger:
  assumes "send_message (build_prompt s (get_relevant_context s question 3) question) = Inl e"
  shows "chat_with_article send_message strptime strftime s question =
           (handle_basic_response strptime strftime s question, s)"
  using assms by (simp add: chat_with_article_def Let_def)

lemma fallback_keeps_ledger_example:
  "service_down
     (build_prompt (sky_session sky_data (sky_ledger ''hi'' ''no idea''))
        (get_relevant_context (sky_session sky_data (sky_ledger ''hi'' ''no idea'')) ''who wrote this?'' 3)
        ''who wrote this?'') = Inl ExternalError \<and>
   chat_with_article service_down strptime_Ymd strftime_BdY
     (sky_session sky_data (sky_ledger ''hi'' ''no idea'')) ''who wrote this?'' =
     (Inr ''Author: Jane Doe'', sky_session sky_data (sky_ledger ''hi'' ''no idea''))"
proof -
  let ?s = "sky_session sky_data (sky_ledger ''hi'' ''no idea'')"
  have h: "service_down (build_prompt ?s (get_relevant_context ?s ''who wrote this?'' 3) ''who wrote this?'')
           = Inl ExternalError"
    by (simp add: service_down_def)
  have v: "handle_basic_response strptime_Ymd strftime_BdY ?s ''who wrote this?'' = Inr ''Author: Jane Doe''"
    by code_simp
  show ?thesis
    using fallback_keeps_ledger [where send_message = service_down and s = ?s
        and question = "''who wrote this?''" and e = ExternalError
        and strptime = strptime_Ymd and strftime = strftime_BdY, OF h] h v
    by simp
qed

text \<open>
  The other two outcomes of the call: a reply with text is recorded as a user turn and an
  assistant turn; a reply whose \<^verbatim>\<open>text\<close> accessor raises is answered by the fallback
  after the user turn has been appended.
\<close>

lemma chat_with_article_answered:
  assumes "send_message (build_prompt s (get_relevant_context s question 3) question) =
             Inr (Response (Inr reply))"
  shows "chat_with_article send_message strptime strftime s question =
           (Inr reply,
            s\<lparr>conversation_history :=
                 conversation_history s @ [(''user'', question), (''assistant'', reply)]\<rparr>)"
  using assms by (simp add: chat_with_article_def Let_def)

lemma chat_with_article_no_text:
  assumes "send_message (build_prompt s (get_relevant_context s question 3) question) =
             Inr (Response (Inl e))"
  shows "chat_with_article send_message strptime strftime s question =
           (handle_basic_response strptime strftime
              (s\<lparr>conversation_history := conversation_history s @ [(''user'', question)]\<rparr>)
              question,
            s\<lparr>conversation_history := conversation_history s @ [(''user'', question)]\<rparr>)"
  using assms by (simp add: chat_with_article_def Let_def)

text \<open>
  Claim C4 says that on any failure of the answering mechanism \<open>chat_with_article\<close> returns
  the fallback's answer for the question and leaves the ledger unchanged. The code does so
  when \<open>send_message\<close> raises, and not when the reply holds no text: the user turn is
  appended before \<^verbatim>\<open>response.text\<close> is read, the raise ends in the same \<^verbatim>\<open>except\<close>
  branch, and the fallback answers from the ledger that already holds the question. On
  the sky article, with a ledger whose last three turns are \<open>the sky\<close>, \<open>colour?\<close> and
  \<open>no idea\<close>, the question \<open>what zzz\<close> leaves a user turn in the ledger and is answered
  with the no-match sentence, while the fallback on the ledger as it was finds the sky.
\<close>

theorem no_text_reply_changes_ledger:
  "service_no_text
     (build_prompt (sky_session sky_data sky_ledger_sky_first)
        (get_relevant_context (sky_session sky_data sky_ledger_sky_first) ''what zzz'' 3)
        ''what zzz'') = Inr (Response (Inl ValueError)) \<and>
   conversation_history
     (snd (chat_with_article service_no_text strptime_Ymd strftime_BdY
             (sky_session sky_data sky_ledger_sky_first) ''what zzz'')) =
     sky_ledger_sky_first @ [(''user'', ''what zzz'')] \<and>
   fst (chat_with_article service_no_text strptime_Ymd strftime_BdY
          (sky_session sky_data sky_ledger_sky_first) ''what zzz'') =
     Inr ''No specific information found in the article.'' \<and>
   handle_basic_response strptime_Ymd strftime_BdY
     (sky_session sky_data sky_ledger_sky_first) ''what zzz'' =
     Inr ''The sky is blue. The sky is blue. The sky is blue. The sky is blue. The sky is blue. The sky is blue...''"
proof -
  let ?s = "sky_session sky_data sky_ledger_sky_first"
  let ?s1 = "?s\<lparr>conversation_history := conversation_history ?s @ [(''user'', ''what zzz'')]\<rparr>"
  have h: "service_no_text (build_prompt ?s (get_relevant_context ?s ''what zzz'' 3) ''what zzz'') =
           Inr (Response (Inl ValueError))"
    by (simp add: service_no_text_def)
  have run: "chat_with_article service_no_text strptime_Ymd strftime_BdY ?s ''what zzz'' =
             (handle_basic_response strptime_Ymd strftime_BdY ?s1 ''what zzz'', ?s1)"
    using h by (rule chat_with_article_no_text)
  have after: "handle_basic_response strptime_Ymd strftime_BdY ?s1 ''what zzz'' =
               Inr ''No specific information found in the article.''"
    by code_simp
  have before: "handle_basic_response strptime_Ymd strftime_BdY ?s ''what zzz'' =
     Inr ''The sky is blue. The sky is blue. The sky is blue. The sky is blue. The sky is blue. The sky is blue...''"
    by code_simp
  have ledger: "conversation_history ?s1 = sky_ledger_sky_first @ [(''user'', ''what zzz'')]"
    by (simp add: sky_session_def)
  from h run after before ledger show ?thesis by simp
qed

end
